theory Spec2Isabelle
  imports Complex_Main
begin

section \<open>Numbers of the three reports\<close>

text \<open>
  The reports hold their figures in pandas columns of 64-bit floats. A cell is modelled
  as an exact rational or one of the three special values that pandas' element-wise
  arithmetic produces instead of raising: a division by zero gives an infinity, or NaN
  for \<open>0 / 0\<close>. Rounding to 53 bits and overflow are not modelled: a finite result is
  the exact rational one. A zero has no sign: it divides as the positive zero does, and
  the general statements below leave open which of the two infinities a zero divisor
  produces.

  The columns that hold integers (employment counts, income per head, cost indices) are
  64-bit integer columns: their cells are integers, and a sum or product of them
  wraps around modulo \<open>2^64\<close> before anything is divided.
\<close>

datatype fval = Fin rat | PInf | NInf | NaN

fun fdiv :: "fval \<Rightarrow> fval \<Rightarrow> fval" where
  "fdiv NaN y = NaN"
| "fdiv x NaN = NaN"
| "fdiv (Fin a) (Fin b) =
     (if b = 0 then (if a = 0 then NaN else if 0 < a then PInf else NInf) else Fin (a / b))"
| "fdiv (Fin a) PInf = Fin 0"
| "fdiv (Fin a) NInf = Fin 0"
| "fdiv PInf (Fin b) = (if 0 \<le> b then PInf else NInf)"
| "fdiv NInf (Fin b) = (if 0 \<le> b then NInf else PInf)"
| "fdiv PInf PInf = NaN"
| "fdiv PInf NInf = NaN"
| "fdiv NInf PInf = NaN"
| "fdiv NInf NInf = NaN"

fun fmul :: "fval \<Rightarrow> fval \<Rightarrow> fval" where
  "fmul NaN y = NaN"
| "fmul x NaN = NaN"
| "fmul (Fin a) (Fin b) = Fin (a * b)"
| "fmul (Fin a) PInf = (if a = 0 then NaN else if 0 < a then PInf else NInf)"
| "fmul (Fin a) NInf = (if a = 0 then NaN else if 0 < a then NInf else PInf)"
| "fmul PInf (Fin b) = (if b = 0 then NaN else if 0 < b then PInf else NInf)"
| "fmul NInf (Fin b) = (if b = 0 then NaN else if 0 < b then NInf else PInf)"
| "fmul PInf PInf = PInf"
| "fmul PInf NInf = NInf"
| "fmul NInf PInf = NInf"
| "fmul NInf NInf = PInf"

fun fadd :: "fval \<Rightarrow> fval \<Rightarrow> fval" where
  "fadd NaN y = NaN"
| "fadd x NaN = NaN"
| "fadd (Fin a) (Fin b) = Fin (a + b)"
| "fadd (Fin a) PInf = PInf"
| "fadd (Fin a) NInf = NInf"
| "fadd PInf (Fin b) = PInf"
| "fadd NInf (Fin b) = NInf"
| "fadd PInf PInf = PInf"
| "fadd PInf NInf = NaN"
| "fadd NInf PInf = NaN"
| "fadd NInf NInf = NInf"

text \<open>The value a signed 64-bit integer operation leaves for the exact result \<open>x\<close>.\<close>

definition wrap64 :: "int \<Rightarrow> int" where
  "wrap64 x = (x + 2 ^ 63) mod 2 ^ 64 - 2 ^ 63"

text \<open>
  \<open>Series.max()\<close> of a column of finite numbers: the largest entry, and NaN for a column
  with no rows (pandas raises nothing there either).
\<close>

fun series_max :: "rat list \<Rightarrow> fval" where
  "series_max [] = NaN"
| "series_max (v # vs) = Fin (fold max vs v)"

text \<open>
  \<open>Series.sum()\<close> with its default \<open>skipna=True\<close>: NaN cells are left out, the sum of no
  cells is 0, and infinities add up as in IEEE arithmetic.
\<close>

fun series_sum :: "fval list \<Rightarrow> fval" where
  "series_sum [] = Fin 0"
| "series_sum (NaN # xs) = series_sum xs"
| "series_sum (x # xs) = fadd x (series_sum xs)"

section \<open>Relative metrics\<close>

text \<open>
  The expression \<open>(df[c] / df[c].max()) * 100\<close>, written out three times in
  \<open>create_comprehensive_dashboard\<close> and three times in
  \<open>create_international_comparison\<close>: every cell of the column divided by the column's
  maximum, then multiplied by 100.
\<close>

definition normalize_relative :: "rat list \<Rightarrow> fval list" where
  "normalize_relative col = map (\<lambda>v. fmul (fdiv (Fin v) (series_max col)) (Fin 100)) col"

text \<open>Element-wise arithmetic on whole columns: a column times a constant, and the sum
  of two columns of one table, row by row.\<close>

definition col_scale :: "fval list \<Rightarrow> rat \<Rightarrow> fval list" where
  "col_scale col k = map (\<lambda>x. fmul x (Fin k)) col"

definition col_add :: "fval list \<Rightarrow> fval list \<Rightarrow> fval list" where
  "col_add xs ys = map2 fadd xs ys"

text \<open>The exceptions a method of the three classes can end with.\<close>

datatype error = KeyError | TypeError | ValueError | ZeroDivisionError

section \<open>SouthAfricaEconomicPredictor: the international comparison\<close>

text \<open>
  A sector table as \<open>load_data\<close> reads it (sector, growth in percent, employment), and
  the same table once \<open>calculate_economic_indicators\<close> has added its two columns
  \<open>Economic_Contribution\<close> and \<open>GDP_Impact\<close> to every row. The columns of the file are
  taken to be present; growth is a number and employment a count, a 64-bit integer.
\<close>

datatype sector_df =
  Loaded "(string \<times> rat \<times> int) list"
| Indicated "(string \<times> rat \<times> int \<times> fval \<times> fval) list"

text \<open>The object: the three tables are \<open>None\<close> until \<open>load_data\<close> has run. The fields
  \<open>economic_model\<close> and \<open>scaler\<close> are never read and are left out.\<close>

record predictor =
  private_data :: "sector_df option"
  public_data :: "sector_df option"
  employment_predictions :: "(int \<times> rat) list option"

definition init_predictor :: predictor where
  "init_predictor = \<lparr>private_data = None, public_data = None, employment_predictions = None\<rparr>"

text \<open>The dictionary \<open>countries\<close> of \<open>create_international_comparison\<close>, in insertion order:
  name, gdp, employment_millions, currency_strength.\<close>

definition countries_2024 :: "(string \<times> rat \<times> rat \<times> rat) list" where
  "countries_2024 =
     [(''USA'', 28.0, 160, 1.0),
      (''China'', 18.0, 780, 0.14),
      (''England'', 3.5, 33, 1.27),
      (''South_Africa'', 0.4, 16.5, 0.053)]"

record comparison_df =
  country :: "string list"
  gdp :: "rat list"
  employment_millions :: "rat list"
  currency_strength :: "rat list"
  Economic_Size_Index :: "fval list"
  Employment_Strength :: "fval list"
  Currency_Power :: "fval list"
  Composite_Power :: "fval list"

definition create_international_comparison :: "predictor \<Rightarrow> comparison_df" where
  "create_international_comparison self =
     (let names = map fst countries_2024;
          g = map (\<lambda>(n, g, e, c). g) countries_2024;
          e = map (\<lambda>(n, g, e, c). e) countries_2024;
          c = map (\<lambda>(n, g, e, c). c) countries_2024;
          size_index = normalize_relative g;
          strength = normalize_relative e;
          power = normalize_relative c
      in \<lparr>country = names, gdp = g, employment_millions = e, currency_strength = c,
           Economic_Size_Index = size_index,
           Employment_Strength = strength,
           Currency_Power = power,
           Composite_Power =
             col_add (col_add (col_scale size_index 0.4) (col_scale strength 0.3))
               (col_scale power 0.3)\<rparr>)"

text \<open>\<open>df.loc[name, column]\<close>: the cell of a column in the row labelled \<open>name\<close>.\<close>

definition cell :: "string list \<Rightarrow> 'a list \<Rightarrow> string \<Rightarrow> 'a option" where
  "cell labels col name = map_of (zip labels col) name"

section \<open>EconomicComparisonDashboard\<close>

record dashboard =
  countries :: "string list"

definition init_dashboard :: dashboard where
  "init_dashboard = \<lparr>countries = [''USA'', ''China'', ''England'', ''South_Africa'']\<rparr>"

record dashboard_df =
  Country :: "string list"
  GDP_Trillion_USD :: "rat list"
  GDP_Growth_Rate :: "rat list"
  Employment_Millions :: "rat list"
  Currency_Strength :: "rat list"
  Innovation_Index :: "rat list"
  Economic_Freedom :: "rat list"
  Economic_Size_Relative :: "fval list"
  Employment_Market_Relative :: "fval list"
  Innovation_Relative :: "fval list"
  Economic_Power_Index :: "fval list"

text \<open>
  The table is built from \<open>self.countries\<close> and six literal columns of four cells; pandas
  refuses columns of different lengths with a \<open>ValueError\<close>.
\<close>

definition create_comprehensive_dashboard :: "dashboard \<Rightarrow> error + dashboard_df" where
  "create_comprehensive_dashboard self =
     (if length (countries self) \<noteq> 4 then Inl ValueError
      else
        let g = [28.0, 18.0, 3.5, 0.4];
            r = [2.1, 5.2, 1.8, 3.8];
            e = [160, 780, 33, 16.5];
            c = [100, 14, 127, 5.3];
            i = [87.9, 81.9, 82.2, 42.4];
            f = [76.6, 58.4, 78.9, 59.8];
            size_rel = normalize_relative g;
            emp_rel = normalize_relative e;
            inn_rel = normalize_relative i
        in Inr \<lparr>Country = countries self, GDP_Trillion_USD = g, GDP_Growth_Rate = r,
             Employment_Millions = e, Currency_Strength = c, Innovation_Index = i,
             Economic_Freedom = f,
             Economic_Size_Relative = size_rel,
             Employment_Market_Relative = emp_rel,
             Innovation_Relative = inn_rel,
             Economic_Power_Index =
               col_add
                 (col_add
                   (col_add
                     (col_add (col_scale size_rel 0.35) (col_scale (map Fin r) 5))
                     (col_scale emp_rel 0.25))
                   (col_scale inn_rel 0.20))
                 (col_scale (map Fin c) 0.20)\<rparr>)"

text \<open>
  The list comprehension \<open>[table[y] for y in years]\<close> of \<open>create_growth_forecast\<close>: a
  dictionary lookup per requested year, in order; the first year that is not a key
  ends the whole comprehension with a \<open>KeyError\<close>.
\<close>

fun linear_table_lookup :: "(int \<rightharpoonup> rat) \<Rightarrow> int list \<Rightarrow> error + rat list" where
  "linear_table_lookup table [] = Inr []"
| "linear_table_lookup table (y # ys) =
     (case table y of
        None \<Rightarrow> Inl KeyError
      | Some v \<Rightarrow>
          (case linear_table_lookup table ys of
             Inl e \<Rightarrow> Inl e
           | Inr vs \<Rightarrow> Inr (v # vs)))"

definition gdp_forecast :: "int \<rightharpoonup> rat" where
  "gdp_forecast = map_of [(2024, 0.42), (2025, 0.45), (2026, 0.48), (2027, 0.52), (2028, 0.56)]"

definition employment_forecast :: "int \<rightharpoonup> rat" where
  "employment_forecast =
     map_of [(2024, 17.2), (2025, 18.1), (2026, 19.0), (2027, 20.1), (2028, 21.3)]"

record forecast_df =
  Year :: "int list"
  GDP_Billion_USD :: "rat list"
  Forecast_Employment_Millions :: "rat list"

definition create_growth_forecast :: "dashboard \<Rightarrow> error + forecast_df" where
  "create_growth_forecast self =
     (let years = [2024 ..< 2029] in
      case linear_table_lookup gdp_forecast (map int years) of
        Inl e \<Rightarrow> Inl e
      | Inr g \<Rightarrow>
          (case linear_table_lookup employment_forecast (map int years) of
             Inl e \<Rightarrow> Inl e
           | Inr m \<Rightarrow>
               Inr \<lparr>Year = map int years, GDP_Billion_USD = g,
                    Forecast_Employment_Millions = m\<rparr>))"

text \<open>
  The year lookup of \<open>generate_predictions\<close>,
  \<open>employment_predictions[employment_predictions['Year'] == 2028]['Predicted_Employment'].sum()\<close>:
  the rows of the loaded table whose year is 2028 are kept and their predicted
  employment is summed.
\<close>

definition employment_2028 :: "(int \<times> rat) list \<Rightarrow> fval" where
  "employment_2028 table = series_sum (map (\<lambda>(y, v). Fin v) (filter (\<lambda>(y, v). y = 2028) table))"

section \<open>CurrencyStrengthAnalyzer: purchasing power\<close>

record analyzer =
  exchange_rates :: "(string \<times> rat) list"

definition init_analyzer :: analyzer where
  "init_analyzer = \<lparr>exchange_rates = [(''USD_ZAR'', 18.5), (''CNY_ZAR'', 2.55), (''GBP_ZAR'', 23.4)]\<rparr>"

text \<open>The two derived columns of \<open>analyze_purchasing_power\<close>, cell by cell:
  \<open>(GDP_per_Capita_USD * 100) / Cost_Index\<close> and
  \<open>Exchange_Rate_to_ZAR * (Cost_Index / 100)\<close>. Income per head and cost index are
  integer columns: the product with 100 is a 64-bit integer product, which wraps, and
  the division that follows is the true division of pandas, which gives a float and
  raises nothing for a zero divisor.\<close>

definition ppp_adjusted_income :: "int \<Rightarrow> int \<Rightarrow> fval" where
  "ppp_adjusted_income gdp_per_capita cost_index =
     fdiv (Fin (of_int (wrap64 (gdp_per_capita * 100)))) (Fin (of_int cost_index))"

definition currency_fair_value :: "rat \<Rightarrow> int \<Rightarrow> fval" where
  "currency_fair_value exchange_rate cost_index =
     fmul (Fin exchange_rate) (fdiv (Fin (of_int cost_index)) (Fin 100))"

record ppp_df =
  Country_ppp :: "string list"
  Cost_Index :: "int list"
  Exchange_Rate_to_ZAR :: "rat list"
  GDP_per_Capita_USD :: "int list"
  PPP_Adjusted_Income :: "fval list"
  Currency_Fair_Value :: "fval list"

definition analyze_purchasing_power :: "analyzer \<Rightarrow> ppp_df" where
  "analyze_purchasing_power self =
     (let names = [''USA'', ''China'', ''England'', ''South_Africa''];
          cost = [100, 58, 127, 45];
          rate = [18.5, 2.55, 23.4, 1.0];
          income = [85000, 12500, 52000, 6800]
      in \<lparr>Country_ppp = names, Cost_Index = cost, Exchange_Rate_to_ZAR = rate,
           GDP_per_Capita_USD = income,
           PPP_Adjusted_Income = map2 ppp_adjusted_income income cost,
           Currency_Fair_Value = map2 currency_fair_value rate cost\<rparr>)"

section \<open>SouthAfricaEconomicPredictor: sector indicators and growth\<close>

definition private_gdp :: "string \<rightharpoonup> rat" where
  "private_gdp =
     map_of [(''Finance'', 0.25), (''ICT'', 0.15), (''Manufacturing'', 0.12),
             (''Construction'', 0.08), (''Agriculture'', 0.05), (''Transport'', 0.06),
             (''Wholesale'', 0.10), (''Other'', 0.19)]"

text \<open>\<open>Series.map(private_gdp)\<close>: the share of a listed sector, NaN for any other name.\<close>

definition private_contribution :: "string \<Rightarrow> fval" where
  "private_contribution sector = (case private_gdp sector of None \<Rightarrow> NaN | Some w \<Rightarrow> Fin w)"

text \<open>One cell of the column \<open>GDP_Impact = (Growth_% / 100) * Economic_Contribution\<close>.\<close>

definition gdp_impact :: "rat \<Rightarrow> fval \<Rightarrow> fval" where
  "gdp_impact growth contribution = fmul (fdiv (Fin growth) (Fin 100)) contribution"

fun sector_rows :: "sector_df \<Rightarrow> (string \<times> rat \<times> int) list" where
  "sector_rows (Loaded rs) = rs"
| "sector_rows (Indicated rs) = map (\<lambda>(n, g, e, c, i). (n, g, e)) rs"

text \<open>Assigning the two columns: they are computed from the sector and growth columns and
  replace columns of the same name that an earlier call has put there.\<close>

definition add_indicators :: "(string \<Rightarrow> fval) \<Rightarrow> sector_df \<Rightarrow> sector_df" where
  "add_indicators contribution df =
     Indicated (map (\<lambda>(n, g, e). (n, g, e, contribution n, gdp_impact g (contribution n)))
                    (sector_rows df))"

text \<open>
  \<open>calculate_economic_indicators\<close> returns nothing: it mutates the two tables held by the
  object, the private one first. A table that is still \<open>None\<close> ends the call with a
  \<open>TypeError\<close>, after the private table has been changed when it is the public one.
\<close>

definition calculate_economic_indicators :: "predictor \<Rightarrow> (error + unit) \<times> predictor" where
  "calculate_economic_indicators self =
     (case private_data self of
        None \<Rightarrow> (Inl TypeError, self)
      | Some priv \<Rightarrow>
          (let self1 = self\<lparr>private_data := Some (add_indicators private_contribution priv)\<rparr> in
           case public_data self1 of
             None \<Rightarrow> (Inl TypeError, self1)
           | Some pub \<Rightarrow>
               (Inr (), self1\<lparr>public_data := Some (add_indicators (\<lambda>n. Fin 0.20) pub)\<rparr>)))"

text \<open>The sum of the employment column, a 64-bit integer sum (0 for a table without
  rows).\<close>

definition total_employment :: "sector_df \<Rightarrow> int" where
  "total_employment df = wrap64 (sum_list (map (\<lambda>(n, g, e). e) (sector_rows df)))"

text \<open>Reading the column \<open>GDP_Impact\<close> beside the employment column: a \<open>KeyError\<close> on a
  table that does not have the column yet.\<close>

fun impact_rows :: "sector_df \<Rightarrow> error + (fval \<times> int) list" where
  "impact_rows (Loaded rs) = Inl KeyError"
| "impact_rows (Indicated rs) = Inr (map (\<lambda>(n, g, e, c, i). (i, e)) rs)"

text \<open>
  \<open>(df['GDP_Impact'] * df[employment]).sum() / total\<close>, the right-hand side of both
  \<open>private_growth\<close> and \<open>public_growth\<close>, where \<open>total\<close> is the sum of the employment
  column taken before. The products are floats and their sum leaves NaN cells out. On a
  table with rows the two operands of the division are numpy scalars, and a zero total
  gives an infinity or NaN. On a table without rows (a file with a header only) both
  sums are the Python integer 0 and the division raises \<open>ZeroDivisionError\<close>.
\<close>

definition group_growth :: "sector_df \<Rightarrow> int \<Rightarrow> error + fval" where
  "group_growth df total_employed =
     (case impact_rows df of
        Inl e \<Rightarrow> Inl e
      | Inr rows \<Rightarrow>
          if rows = [] then Inl ZeroDivisionError
          else Inr (fdiv (series_sum (map (\<lambda>(i, e). fmul i (Fin (of_int e))) rows))
                         (Fin (of_int total_employed))))"

record gdp_prediction =
  base_gdp_billion :: fval
  predicted_growth_rate :: fval
  gdp_2024 :: fval

text \<open>
  \<open>predict_gdp_growth\<close>. The two totals and the base GDP come first (the products with
  85000 and 75000 and their sum are 64-bit integer operations), then the growth of the
  private table, then that of the public one.
\<close>

definition predict_gdp_growth :: "predictor \<Rightarrow> error + gdp_prediction" where
  "predict_gdp_growth self =
     (case private_data self of
        None \<Rightarrow> Inl TypeError
      | Some priv \<Rightarrow>
     (case public_data self of
        None \<Rightarrow> Inl TypeError
      | Some pub \<Rightarrow>
     (let total_private_employment = total_employment priv;
          total_public_employment = total_employment pub;
          base_gdp = fdiv (Fin (of_int (wrap64 (wrap64 (total_private_employment * 85000)
                                                + wrap64 (total_public_employment * 75000)))))
                          (Fin 1000000)
      in
      case group_growth priv total_private_employment of
        Inl e \<Rightarrow> Inl e
      | Inr private_growth \<Rightarrow>
     (case group_growth pub total_public_employment of
        Inl e \<Rightarrow> Inl e
      | Inr public_growth \<Rightarrow>
     (let total_growth = fmul (fadd (fmul private_growth (Fin 0.8))
                                    (fmul public_growth (Fin 0.2))) (Fin 100)
      in Inr \<lparr>base_gdp_billion = base_gdp,
              predicted_growth_rate = total_growth,
              gdp_2024 = fmul base_gdp (fadd (Fin 1) (fdiv total_growth (Fin 100)))\<rparr>)))))"

text \<open>
  The growth of a group of sectors as the specification writes it, for sectors given as
  (growth in percent, share of GDP, employment): the sum of
  \<open>(growth / 100) * share * employment\<close> over the sum of the employment. It is the
  yardstick the two methods are compared with, not a part of the program.
\<close>

definition sector_weighted_growth_spec :: "(rat \<times> rat \<times> int) list \<Rightarrow> rat" where
  "sector_weighted_growth_spec sectors =
     sum_list (map (\<lambda>(g, w, e). g / 100 * w * of_int e) sectors)
       / of_int (sum_list (map (\<lambda>(g, w, e). e) sectors))"

section \<open>CurrencyStrengthAnalyzer: simulated exchange rates\<close>

text \<open>
  \<open>np.random.normal(loc, scale, size)\<close> draws \<open>size\<close> values from numpy's process-wide generator, which
  every draw advances. The generator is not part of the repository: it is a parameter
  \<open>gen\<close>, one standard normal deviate per step from a state of any type \<open>'g\<close>, and the
  state is passed through the calls.
\<close>

fun draws :: "('g \<Rightarrow> rat \<times> 'g) \<Rightarrow> nat \<Rightarrow> 'g \<Rightarrow> rat list \<times> 'g" where
  "draws gen 0 s = ([], s)"
| "draws gen (Suc n) s =
     (case gen s of (z, s1) \<Rightarrow> (case draws gen n s1 of (zs, s2) \<Rightarrow> (z # zs, s2)))"

definition random_normal ::
  "('g \<Rightarrow> rat \<times> 'g) \<Rightarrow> rat \<Rightarrow> rat \<Rightarrow> nat \<Rightarrow> 'g \<Rightarrow> rat list \<times> 'g" where
  "random_normal gen loc scale count s =
     (case draws gen count s of (zs, s') \<Rightarrow> (map (\<lambda>z. loc + scale * z) zs, s'))"

text \<open>The month ends from January 2023 to December 2024, as (year, month).\<close>

definition months :: "(nat \<times> nat) list" where
  "months = concat (map (\<lambda>y. map (\<lambda>m. (y, m)) [1 ..< 13]) [2023 ..< 2025])"

record currency_df =
  Date :: "(nat \<times> nat) list"
  USD_ZAR :: "rat list"
  CNY_ZAR :: "rat list"
  GBP_ZAR :: "rat list"

text \<open>\<open>Series.std()\<close>: the sample standard deviation, with \<open>n - 1\<close> in the denominator.\<close>

definition series_std :: "rat list \<Rightarrow> real" where
  "series_std xs =
     (let n = of_nat (length xs); mean = sum_list xs / n
      in sqrt (of_rat (sum_list (map (\<lambda>x. (x - mean)\<^sup>2) xs) / (n - 1))))"

text \<open>
  \<open>create_currency_dashboard\<close> takes no argument besides the object. The three noise
  columns are drawn one after the other, in the order of the dictionary display; the
  result is the table, the three volatilities (USD, CNY, GBP) and the generator state
  the call leaves behind.
\<close>

definition create_currency_dashboard ::
  "('g \<Rightarrow> rat \<times> 'g) \<Rightarrow> analyzer \<Rightarrow> 'g \<Rightarrow> (currency_df \<times> real \<times> real \<times> real) \<times> 'g" where
  "create_currency_dashboard gen self s =
     (case random_normal gen 0 0.5 (length months) s of (usd, s1) \<Rightarrow>
      case random_normal gen 0 0.1 (length months) s1 of (cny, s2) \<Rightarrow>
      case random_normal gen 0 0.8 (length months) s2 of (gbp, s3) \<Rightarrow>
        (let currency_data =
               \<lparr>Date = months,
                USD_ZAR = map (\<lambda>x. 18.5 + x) usd,
                CNY_ZAR = map (\<lambda>x. 2.55 + x) cny,
                GBP_ZAR = map (\<lambda>x. 23.4 + x) gbp\<rparr>
         in ((currency_data,
              series_std (USD_ZAR currency_data),
              series_std (CNY_ZAR currency_data),
              series_std (GBP_ZAR currency_data)), s3)))"

section \<open>Concrete objects for the examples\<close>

text \<open>A predictor after \<open>load_data\<close> has read one private and one public sector, before
  any indicator has been calculated.\<close>

definition example_loaded :: predictor where
  "example_loaded =
     \<lparr>private_data = Some (Loaded [(''Finance'', 10, 1000)]),
      public_data = Some (Loaded [(''Government'', 5, 1000)]),
      employment_predictions = Some [(2028, 21.3)]\<rparr>"

text \<open>The two private sectors of the specification's example, with one public sector.\<close>

definition example_two_sectors :: predictor where
  "example_two_sectors =
     \<lparr>private_data = Some (Loaded [(''Finance'', 10, 1000), (''ICT'', 5, 2000)]),
      public_data = Some (Loaded [(''Government'', 5, 1000)]),
      employment_predictions = Some [(2028, 21.3)]\<rparr>"

text \<open>The same two sectors with an employment of \<open>5 * 10^18\<close> each: every cell is a 64-bit
  integer, their sum is not.\<close>

definition example_large :: predictor where
  "example_large =
     \<lparr>private_data = Some (Loaded [(''Finance'', 10, 5000000000000000000),
                                  (''ICT'', 5, 5000000000000000000)]),
      public_data = Some (Loaded [(''Government'', 5, 1000)]),
      employment_predictions = Some [(2028, 21.3)]\<rparr>"

text \<open>A predictor whose private file has a header and no rows.\<close>

definition example_header_only :: predictor where
  "example_header_only =
     \<lparr>private_data = Some (Loaded []),
      public_data = Some (Loaded [(''Government'', 5, 1000)]),
      employment_predictions = Some [(2028, 21.3)]\<rparr>"

text \<open>A generator whose state is a counter and whose \<open>k\<close>-th draw is \<open>k\<close>: it stands for
  the library generator wherever a run has to be evaluated.\<close>

definition counter_gen :: "nat \<Rightarrow> rat \<times> nat" where
  "counter_gen k = (of_nat k, Suc k)"

section \<open>Properties of the relative metrics\<close>

lemma series_max_Max: "vs \<noteq> [] \<Longrightarrow> series_max vs = Fin (Max (set vs))"
proof (cases vs)
  case Nil
  assume "vs \<noteq> []"
  with Nil show ?thesis by simp
next
  case (Cons a list)
  show ?thesis
    unfolding Cons series_max.simps Max.set_eq_fold ..
qed

lemma normalize_relative_nth:
  assumes "vs \<noteq> []" and "Max (set vs) \<noteq> 0" and "i < length vs"
  shows "normalize_relative vs ! i = Fin (vs ! i / Max (set vs) * 100)"
  using assms by (simp add: normalize_relative_def series_max_Max)

text \<open>
  C1. On a non-empty column of positive values the relative metric has one cell per
  input cell, every cell is a finite number between 0 and 100, and a cell holding the
  column's maximum becomes exactly 100; in particular a column of one positive value
  becomes the single cell 100.
\<close>

theorem normalize_relative_positive:
  assumes "vs \<noteq> []" and "\<forall>v\<in>set vs. 0 < v"
  shows "length (normalize_relative vs) = length vs \<and>
    (\<forall>i<length vs.
       (\<exists>r. normalize_relative vs ! i = Fin r \<and> 0 \<le> r \<and> r \<le> 100) \<and>
       (vs ! i = Max (set vs) \<longrightarrow> normalize_relative vs ! i = Fin 100)) \<and>
    (length vs = 1 \<longrightarrow> normalize_relative vs = [Fin 100])"
proof -
  let ?m = "Max (set vs)"
  have fin: "finite (set vs)" and ne: "set vs \<noteq> {}"
    using assms(1) by simp_all
  have "?m \<in> set vs"
    using fin ne by (rule Max_in)
  then have mpos: "0 < ?m"
    using assms(2) by blast
  have cell: "normalize_relative vs ! i = Fin (vs ! i / ?m * 100)" if "i < length vs" for i
    using assms(1) mpos that by (simp add: normalize_relative_nth)
  have range: "0 \<le> vs ! i / ?m * 100 \<and> vs ! i / ?m * 100 \<le> 100" if "i < length vs" for i
  proof -
    have mem: "vs ! i \<in> set vs"
      using that by simp
    then have "0 < vs ! i" and "vs ! i \<le> ?m"
      using assms(2) fin by (blast, simp)
    then show ?thesis
      using mpos by (simp add: field_simps)
  qed
  have top: "vs ! i / ?m * 100 = 100" if "vs ! i = ?m" for i
    using that mpos by simp
  have single: "normalize_relative vs = [Fin 100]" if len1: "length vs = 1"
  proof -
    obtain v where vs: "vs = [v]"
      using len1 by (auto simp: length_Suc_conv)
    then have "0 < v"
      using assms(2) by simp
    then show ?thesis
      by (simp add: vs normalize_relative_def)
  qed
  have len: "length (normalize_relative vs) = length vs"
    by (simp add: normalize_relative_def)
  have each: "(\<exists>r. normalize_relative vs ! i = Fin r \<and> 0 \<le> r \<and> r \<le> 100) \<and>
      (vs ! i = ?m \<longrightarrow> normalize_relative vs ! i = Fin 100)" if i: "i < length vs" for i
  proof
    show "\<exists>r. normalize_relative vs ! i = Fin r \<and> 0 \<le> r \<and> r \<le> 100"
      using cell [OF i] range [OF i] by blast
    show "vs ! i = ?m \<longrightarrow> normalize_relative vs ! i = Fin 100"
    proof
      assume eq: "vs ! i = ?m"
      show "normalize_relative vs ! i = Fin 100"
        unfolding cell [OF i] top [OF eq] ..
    qed
  qed
  show ?thesis
    using len each single by blast
qed

text \<open>
  The GDP column of \<open>create_comprehensive_dashboard\<close> (28.0, 18.0, 3.5, 0.4) meets the
  hypotheses: its first cell, the maximum, becomes 100.
\<close>

theorem normalize_relative_positive_witness:
  "[28, 18, 3.5, 0.4] \<noteq> ([] :: rat list) \<and> list_all (\<lambda>v. 0 < v) [28, 18, 3.5, 0.4 :: rat] \<and>
   length (normalize_relative [28, 18, 3.5, 0.4]) = 4 \<and>
   normalize_relative [28, 18, 3.5, 0.4] ! 0 = Fin 100"
  using normalize_relative_positive [of "[28, 18, 3.5, 0.4]"]
  by (simp add: normalize_relative_def)

section \<open>The composite power index\<close>

text \<open>
  C2, as the code computes it. In the row of the USA the economic size index is 100 and
  the employment strength is \<open>160 / 780 * 100\<close>, but the largest currency strength is
  England's 1.27, so the currency power of the USA is \<open>1.0 / 1.27 * 100\<close> (about 78.74)
  and its composite power is \<open>115200 / 1651\<close>, which is 69.78 within 0.01.
\<close>

theorem composite_power_usa:
  "(let df = create_international_comparison self in
      cell (country df) (Economic_Size_Index df) ''USA'' = Some (Fin 100) \<and>
      cell (country df) (Employment_Strength df) ''USA'' = Some (Fin (160 / 780 * 100)) \<and>
      cell (country df) (Currency_Power df) ''USA'' = Some (Fin (1.0 / 1.27 * 100)) \<and>
      cell (country df) (Composite_Power df) ''USA'' = Some (Fin (115200 / 1651))) \<and>
   \<bar>115200 / 1651 - (69.78 :: rat)\<bar> < 0.01"
  by (simp add: create_international_comparison_def countries_2024_def normalize_relative_def
      col_add_def col_scale_def cell_def)

text \<open>
  The claim as written fails on the table of the source: the currency power of the USA
  is not 100, and its composite power is further than 0.01 from 76.15.
\<close>

theorem composite_power_usa_counterexample:
  "cell (country (create_international_comparison init_predictor))
     (Currency_Power (create_international_comparison init_predictor)) ''USA''
     = Some (Fin (10000 / 127)) \<and>
   cell (country (create_international_comparison init_predictor))
     (Composite_Power (create_international_comparison init_predictor)) ''USA''
     = Some (Fin (115200 / 1651)) \<and>
   0.01 < \<bar>115200 / 1651 - (76.15 :: rat)\<bar>"
  by (simp add: create_international_comparison_def countries_2024_def normalize_relative_def
      col_add_def col_scale_def cell_def)

section \<open>Looking up a year\<close>

lemma linear_table_lookup_missing:
  "y \<in> set years \<Longrightarrow> table y = None \<Longrightarrow> linear_table_lookup table years = Inl KeyError"
  by (induction years) (auto split: option.splits sum.splits)

lemma employment_2028_absent:
  assumes "2028 \<notin> fst ` set rows"
  shows "employment_2028 rows = Fin 0"
proof -
  have "filter (\<lambda>(y, v). y = 2028) rows = []"
    using assms by (force simp: filter_empty_conv)
  then show ?thesis by (simp add: employment_2028_def)
qed

text \<open>
  C4, as the code behaves. The dictionary lookup of \<open>create_growth_forecast\<close> ends with
  a \<open>KeyError\<close> as soon as one requested year is not a key of the dictionary. The year
  filter of \<open>generate_predictions\<close> does not: on a table with no row for 2028 it
  returns the sum of no rows, 0.
\<close>

theorem lookup_absent_year:
  "(y \<in> set years \<and> table y = None \<longrightarrow> linear_table_lookup table years = Inl KeyError) \<and>
   (2028 \<notin> fst ` set rows \<longrightarrow> employment_2028 rows = Fin 0)"
  using linear_table_lookup_missing employment_2028_absent by blast

theorem lookup_absent_year_witness:
  "(2030 :: int) \<in> set [2024, 2030] \<and> gdp_forecast 2030 = None \<and>
   linear_table_lookup gdp_forecast [2024, 2030] = Inl KeyError \<and>
   2028 \<notin> fst ` set [(2026 :: int, 19 :: rat), (2027, 20.1)] \<and>
   employment_2028 [(2026, 19), (2027, 20.1)] = Fin 0"
  using lookup_absent_year [of 2030 "[2024, 2030]" gdp_forecast "[(2026, 19), (2027, 20.1)]"]
  by (simp add: gdp_forecast_def)

text \<open>A table of predictions with rows for 2026 and 2027 only: the year 2028 is absent,
  and the lookup of the source answers 0.\<close>

theorem lookup_absent_year_counterexample:
  "map_of [(2026, 19), (2027, 20.1 :: rat)] (2028 :: int) = None \<and>
   employment_2028 [(2026, 19), (2027, 20.1)] = Fin 0"
  by (simp add: employment_2028_def)

section \<open>The simulated exchange rates\<close>

lemma draws_length: "length (fst (draws gen n s)) = n"
  by (induction n arbitrary: s) (simp_all add: case_prod_unfold)

lemma draws_add:
  "draws gen (m + n) s =
     (case draws gen m s of (xs, s1) \<Rightarrow> case draws gen n s1 of (ys, s2) \<Rightarrow> (xs @ ys, s2))"
  by (induction m arbitrary: s) (auto split: prod.splits)

lemma draws_add_fst:
  "fst (draws gen (m + n) s) = fst (draws gen m s) @ fst (draws gen n (snd (draws gen m s)))"
  by (simp add: draws_add case_prod_unfold)

lemma draws_add_snd: "snd (draws gen (m + n) s) = snd (draws gen n (snd (draws gen m s)))"
  by (simp add: draws_add case_prod_unfold)

lemma draws_72:
  "fst (draws gen 72 s) =
     fst (draws gen 24 s) @ fst (draws gen 24 (snd (draws gen 24 s)))
       @ fst (draws gen 24 (snd (draws gen 24 (snd (draws gen 24 s)))))"
  "snd (draws gen 72 s) = snd (draws gen 24 (snd (draws gen 24 (snd (draws gen 24 s)))))"
proof -
  have "(72 :: nat) = 24 + (24 + 24)" by simp
  then show "fst (draws gen 72 s) =
     fst (draws gen 24 s) @ fst (draws gen 24 (snd (draws gen 24 s)))
       @ fst (draws gen 24 (snd (draws gen 24 (snd (draws gen 24 s)))))"
    and "snd (draws gen 72 s) = snd (draws gen 24 (snd (draws gen 24 (snd (draws gen 24 s)))))"
    by (simp_all only: draws_add_fst draws_add_snd)
qed

lemma length_months: "length months = 24"
  by (simp add: months_def)

lemma draws_counter_gen: "draws counter_gen n k = (map of_nat [k ..< k + n], k + n)"
  by (induction n arbitrary: k) (auto simp: counter_gen_def upt_rec)

lemma create_currency_dashboard_unfold:
  "create_currency_dashboard gen self s =
     (let a = draws gen 24 s; b = draws gen 24 (snd a); c = draws gen 24 (snd b);
          usd = map (\<lambda>z. 18.5 + (0 + 0.5 * z)) (fst a);
          cny = map (\<lambda>z. 2.55 + (0 + 0.1 * z)) (fst b);
          gbp = map (\<lambda>z. 23.4 + (0 + 0.8 * z)) (fst c)
      in ((\<lparr>Date = months, USD_ZAR = usd, CNY_ZAR = cny, GBP_ZAR = gbp\<rparr>,
           series_std usd, series_std cny, series_std gbp), snd c))"
  by (simp add: create_currency_dashboard_def random_normal_def length_months case_prod_unfold
      Let_def comp_def)

text \<open>
  C9, as the code behaves. The noise of \<open>create_currency_dashboard\<close> is given a mean, a
  standard deviation and a count, and no seed: the three columns are made from the next
  72 draws of the process-wide generator (24 for the dollar, the following 24 for the
  yuan, the last 24 for the pound), and the call leaves the generator 72 draws further.
  The series are a function of the state in which the call finds the generator.
\<close>

theorem create_currency_dashboard_draws:
  "(let r = create_currency_dashboard gen self s; zs = fst (draws gen 72 s) in
      USD_ZAR (fst (fst r)) = map (\<lambda>z. 18.5 + (0 + 0.5 * z)) (take 24 zs) \<and>
      CNY_ZAR (fst (fst r)) = map (\<lambda>z. 2.55 + (0 + 0.1 * z)) (take 24 (drop 24 zs)) \<and>
      GBP_ZAR (fst (fst r)) = map (\<lambda>z. 23.4 + (0 + 0.8 * z)) (drop 48 zs) \<and>
      snd r = snd (draws gen 72 s))"
  by (simp add: create_currency_dashboard_unfold draws_72 Let_def draws_length)

text \<open>
  Two invocations in a row with the same parameters, on the counting generator: the
  second one starts where the first one left the generator, and its dollar series
  begins with 54.5 where the first one's begins with 18.5.
\<close>

theorem create_currency_dashboard_draws_counterexample:
  "USD_ZAR (fst (fst (create_currency_dashboard counter_gen init_analyzer 0))) ! 0 = 18.5 \<and>
   USD_ZAR (fst (fst (create_currency_dashboard counter_gen init_analyzer
      (snd (create_currency_dashboard counter_gen init_analyzer 0))))) ! 0 = 54.5 \<and>
   fst (fst (create_currency_dashboard counter_gen init_analyzer 0)) \<noteq>
   fst (fst (create_currency_dashboard counter_gen init_analyzer
      (snd (create_currency_dashboard counter_gen init_analyzer 0))))"
proof -
  let ?first = "create_currency_dashboard counter_gen init_analyzer 0"
  let ?second = "create_currency_dashboard counter_gen init_analyzer (snd ?first)"
  have one: "USD_ZAR (fst (fst ?first)) ! 0 = 18.5"
    by (simp add: create_currency_dashboard_unfold Let_def draws_counter_gen upt_rec [of 0])
  have two: "USD_ZAR (fst (fst ?second)) ! 0 = 54.5"
    by (simp add: create_currency_dashboard_unfold Let_def draws_counter_gen upt_rec [of 72])
  have "USD_ZAR (fst (fst ?first)) ! 0 \<noteq> USD_ZAR (fst (fst ?second)) ! 0"
    unfolding one two by simp
  then have "fst (fst ?first) \<noteq> fst (fst ?second)"
    by metis
  with one two show ?thesis by blast
qed

section \<open>A column whose maximum is zero\<close>

text \<open>
  C3, as the code behaves. On a non-empty column whose maximum is 0 the relative metric
  raises nothing: it returns a column of the same length in which every cell is NaN or
  an infinity.
\<close>

theorem normalize_relative_zero_max:
  assumes "vs \<noteq> []" and "Max (set vs) = 0"
  shows "length (normalize_relative vs) = length vs \<and>
     (\<forall>i<length vs. normalize_relative vs ! i = NaN \<or> normalize_relative vs ! i = PInf
        \<or> normalize_relative vs ! i = NInf)"
  using assms by (simp add: normalize_relative_def series_max_Max)

theorem normalize_relative_zero_max_witness:
  "[0, - 1] \<noteq> ([] :: rat list) \<and> Max (set [0, - 1 :: rat]) = 0 \<and>
   length (normalize_relative [0, - 1]) = 2 \<and>
   normalize_relative [0, - 1] ! 0 = NaN \<and> normalize_relative [0, - 1] ! 1 = NInf"
  using normalize_relative_zero_max [of "[0, - 1]"] by (simp add: normalize_relative_def)

text \<open>The column (0, -1) has maximum 0 and is answered with a table, not an error.\<close>

theorem normalize_relative_zero_max_counterexample:
  "series_max [0, - 1] = Fin 0 \<and> normalize_relative [0, - 1] = [NaN, NInf]"
  by (simp add: normalize_relative_def)

section \<open>Sector-weighted growth\<close>

lemma wrap64_id: "- (2 ^ 63) \<le> x \<Longrightarrow> x < 2 ^ 63 \<Longrightarrow> wrap64 x = x"
  by (simp add: wrap64_def)

lemma add_indicators_listed:
  assumes "list_all (\<lambda>(n, g, e). c n = Fin (w n)) rows"
  shows "add_indicators c (Loaded rows)
     = Indicated (map (\<lambda>(n, g, e). (n, g, e, Fin (w n), Fin (g / 100 * w n))) rows)"
  using assms by (induction rows) (auto simp: add_indicators_def gdp_impact_def)

lemma private_contribution_listed:
  "list_all (\<lambda>(n, g, e). private_gdp n \<noteq> None) rows
     \<Longrightarrow> list_all (\<lambda>(n, g, e). private_contribution n = Fin (the (private_gdp n))) rows"
  by (induction rows) (auto simp: private_contribution_def)

lemma impact_sum:
  "series_sum (map (\<lambda>(i, e). fmul i (Fin (of_int e)))
      (map (\<lambda>(n, g, e, c, i). (i, e))
        (map (\<lambda>(n, g, e). (n, g, e, Fin (w n), Fin (g / 100 * w n))) rows)))
   = Fin (sum_list (map (\<lambda>(g, w, e). g / 100 * w * of_int e) (map (\<lambda>(n, g, e). (g, w n, e)) rows)))"
  by (induction rows) auto

lemma employment_sum:
  "sum_list (map (\<lambda>(n, g, e). e)
      (map (\<lambda>(n, g, e, c, i). (n, g, e))
        (map (\<lambda>(n, g, e). (n, g, e, Fin (w n), Fin (g / 100 * w n))) rows)))
   = sum_list (map (\<lambda>(n, g, e). e) rows)"
  by (induction rows) auto

lemma employment_sum_spec:
  "sum_list (map (\<lambda>(g, w, e). e) (map (\<lambda>(n, g, e). (g, w n, e)) rows))
   = sum_list (map (\<lambda>(n, g, e). e) rows)"
  by (induction rows) auto

lemma total_employment_indicated:
  assumes "- (2 ^ 63) \<le> sum_list (map (\<lambda>(n, g, e). e) rows)"
    and "sum_list (map (\<lambda>(n, g, e). e) rows) < 2 ^ 63"
  shows "total_employment (Indicated (map (\<lambda>(n, g, e). (n, g, e, Fin (w n), Fin (g / 100 * w n))) rows))
     = sum_list (map (\<lambda>(n, g, e). e) rows)"
  using assms by (simp only: total_employment_def sector_rows.simps employment_sum wrap64_id)

lemma group_growth_indicated:
  assumes nz: "sum_list (map (\<lambda>(n, g, e). e) rows) \<noteq> 0"
  shows "group_growth (Indicated (map (\<lambda>(n, g, e). (n, g, e, Fin (w n), Fin (g / 100 * w n))) rows))
           (sum_list (map (\<lambda>(n, g, e). e) rows))
     = Inr (Fin (sector_weighted_growth_spec (map (\<lambda>(n, g, e). (g, w n, e)) rows)))"
proof -
  have ne: "rows \<noteq> []"
    using nz by auto
  have nz': "(of_int (sum_list (map (\<lambda>(n, g, e). e) rows)) :: rat) \<noteq> 0"
    using nz by simp
  show ?thesis
    unfolding group_growth_def impact_rows.simps sum.case impact_sum
      sector_weighted_growth_spec_def employment_sum_spec
    using ne nz' by (simp only: map_is_Nil_conv if_False fdiv.simps)
qed


lemma calculate_economic_indicators_loaded:
  assumes "private_data p = Some (Loaded priv)" and "public_data p = Some (Loaded pub)"
    and "list_all (\<lambda>(n, g, e). private_gdp n \<noteq> None) priv"
  shows "calculate_economic_indicators p =
     (Inr (), p\<lparr>private_data := Some (Indicated (map (\<lambda>(n, g, e).
                    (n, g, e, Fin (the (private_gdp n)), Fin (g / 100 * the (private_gdp n)))) priv)),
                public_data := Some (Indicated (map (\<lambda>(n, g, e).
                    (n, g, e, Fin 0.20, Fin (g / 100 * 0.20))) pub))\<rparr>)"
proof -
  define A where "A = Indicated (map (\<lambda>(n, g, e).
      (n, g, e, Fin (the (private_gdp n)), Fin (g / 100 * the (private_gdp n)))) priv)"
  define B where "B = Indicated (map (\<lambda>(n, g, e).
      (n, g, e, Fin 0.20, Fin (g / 100 * 0.20))) pub)"
  have a: "add_indicators private_contribution (Loaded priv) = A"
    unfolding A_def
    by (rule add_indicators_listed [OF private_contribution_listed [OF assms(3)]])
  have "list_all (\<lambda>(n, g, e). (\<lambda>n. Fin 0.20) n = Fin ((\<lambda>n. 0.20) n)) pub"
    by (induction pub) auto
  then have b: "add_indicators (\<lambda>n. Fin 0.20) (Loaded pub) = B"
    unfolding B_def by (rule add_indicators_listed)
  have "calculate_economic_indicators p
      = (Inr (), p\<lparr>private_data := Some A, public_data := Some B\<rparr>)"
    using assms(1,2) by (simp add: calculate_economic_indicators_def a b [simplified])
  then show ?thesis
    unfolding A_def B_def .
qed

text \<open>
  C6, as the code behaves. Take loaded tables whose private sectors are all listed in
  \<open>private_gdp\<close> and whose employment columns add up, each within the signed 64-bit
  range, to a total other than 0. Then \<open>calculate_economic_indicators\<close> gives every row
  the impact \<open>(growth / 100) * share\<close>, the growth of each table is the sum of
  \<open>impact * employment\<close> over the sum of the employment, and \<open>predict_gdp_growth\<close>
  returns the 0.8 / 0.2 mix of the two, times 100. For the private sectors
  (Finance, 10, 1000) and (ICT, 5, 2000), shares 0.25 and 0.15, the growth is
  \<open>40 / 3000 = 1 / 75\<close>, about 0.01333 or 1.333 percent.
\<close>

theorem sector_growth_of_methods:
  "(private_data p = Some (Loaded priv) \<and> public_data p = Some (Loaded pub) \<and>
    list_all (\<lambda>(n, g, e). private_gdp n \<noteq> None) priv \<and>
    sum_list (map (\<lambda>(n, g, e). e) priv) \<noteq> 0 \<and>
    - (2 ^ 63) \<le> sum_list (map (\<lambda>(n, g, e). e) priv) \<and>
    sum_list (map (\<lambda>(n, g, e). e) priv) < 2 ^ 63 \<and>
    sum_list (map (\<lambda>(n, g, e). e) pub) \<noteq> 0 \<and>
    - (2 ^ 63) \<le> sum_list (map (\<lambda>(n, g, e). e) pub) \<and>
    sum_list (map (\<lambda>(n, g, e). e) pub) < 2 ^ 63 \<longrightarrow>
    (let priv' = Indicated (map (\<lambda>(n, g, e).
           (n, g, e, Fin (the (private_gdp n)), Fin (g / 100 * the (private_gdp n)))) priv);
         pub' = Indicated (map (\<lambda>(n, g, e). (n, g, e, Fin 0.20, Fin (g / 100 * 0.20))) pub);
         private_growth =
           sector_weighted_growth_spec (map (\<lambda>(n, g, e). (g, the (private_gdp n), e)) priv);
         public_growth = sector_weighted_growth_spec (map (\<lambda>(n, g, e). (g, 0.20, e)) pub)
     in calculate_economic_indicators p
          = (Inr (), p\<lparr>private_data := Some priv', public_data := Some pub'\<rparr>) \<and>
        group_growth priv' (total_employment priv') = Inr (Fin private_growth) \<and>
        group_growth pub' (total_employment pub') = Inr (Fin public_growth) \<and>
        map_sum id predicted_growth_rate
            (predict_gdp_growth (snd (calculate_economic_indicators p)))
          = Inr (Fin ((private_growth * 0.8 + public_growth * 0.2) * 100)))) \<and>
   map_option (\<lambda>t. group_growth t (total_employment t))
       (private_data (snd (calculate_economic_indicators example_two_sectors)))
     = Some (Inr (Fin (1 / 75))) \<and>
   sector_weighted_growth_spec [(10, 0.25, 1000), (5, 0.15, 2000)] = 1 / 75 \<and>
   \<bar>1 / 75 - (0.01333 :: rat)\<bar> < 0.00001 \<and> \<bar>1 / 75 * 100 - (1.333 :: rat)\<bar> < 0.001"
proof -
  have general: "(let priv' = Indicated (map (\<lambda>(n, g, e).
           (n, g, e, Fin (the (private_gdp n)), Fin (g / 100 * the (private_gdp n)))) priv);
         pub' = Indicated (map (\<lambda>(n, g, e). (n, g, e, Fin 0.20, Fin (g / 100 * 0.20))) pub);
         private_growth =
           sector_weighted_growth_spec (map (\<lambda>(n, g, e). (g, the (private_gdp n), e)) priv);
         public_growth = sector_weighted_growth_spec (map (\<lambda>(n, g, e). (g, 0.20, e)) pub)
     in calculate_economic_indicators p
          = (Inr (), p\<lparr>private_data := Some priv', public_data := Some pub'\<rparr>) \<and>
        group_growth priv' (total_employment priv') = Inr (Fin private_growth) \<and>
        group_growth pub' (total_employment pub') = Inr (Fin public_growth) \<and>
        map_sum id predicted_growth_rate
            (predict_gdp_growth (snd (calculate_economic_indicators p)))
          = Inr (Fin ((private_growth * 0.8 + public_growth * 0.2) * 100)))"
    if loaded: "private_data p = Some (Loaded priv)" "public_data p = Some (Loaded pub)"
      and listed: "list_all (\<lambda>(n, g, e). private_gdp n \<noteq> None) priv"
      and priv: "sum_list (map (\<lambda>(n, g, e). e) priv) \<noteq> 0"
        "- (2 ^ 63) \<le> sum_list (map (\<lambda>(n, g, e). e) priv)"
        "sum_list (map (\<lambda>(n, g, e). e) priv) < 2 ^ 63"
      and pub: "sum_list (map (\<lambda>(n, g, e). e) pub) \<noteq> 0"
        "- (2 ^ 63) \<le> sum_list (map (\<lambda>(n, g, e). e) pub)"
        "sum_list (map (\<lambda>(n, g, e). e) pub) < 2 ^ 63"
  proof -
    define A where "A = Indicated (map (\<lambda>(n, g, e).
        (n, g, e, Fin (the (private_gdp n)), Fin (g / 100 * the (private_gdp n)))) priv)"
    define B where "B = Indicated (map (\<lambda>(n, g, e).
        (n, g, e, Fin 0.20, Fin (g / 100 * 0.20))) pub)"
    define pg where
      "pg = sector_weighted_growth_spec (map (\<lambda>(n, g, e). (g, the (private_gdp n), e)) priv)"
    define ug where "ug = sector_weighted_growth_spec (map (\<lambda>(n, g, e). (g, 0.20, e)) pub)"
    have calc: "calculate_economic_indicators p
        = (Inr (), p\<lparr>private_data := Some A, public_data := Some B\<rparr>)"
      unfolding A_def B_def by (rule calculate_economic_indicators_loaded [OF loaded listed])
    have tp: "total_employment A = sum_list (map (\<lambda>(n, g, e). e) priv)"
      unfolding A_def by (rule total_employment_indicated [OF priv(2,3)])
    have tu: "total_employment B = sum_list (map (\<lambda>(n, g, e). e) pub)"
      unfolding B_def by (rule total_employment_indicated [where w = "\<lambda>n. 0.20", OF pub(2,3)])
    have gp: "group_growth A (total_employment A) = Inr (Fin pg)"
      unfolding tp unfolding A_def pg_def by (rule group_growth_indicated [OF priv(1)])
    have gu: "group_growth B (total_employment B) = Inr (Fin ug)"
      unfolding tu unfolding B_def ug_def
      by (rule group_growth_indicated [where w = "\<lambda>n. 0.20", OF pub(1)])
    have rate: "map_sum id predicted_growth_rate
          (predict_gdp_growth (snd (calculate_economic_indicators p)))
        = Inr (Fin ((pg * 0.8 + ug * 0.2) * 100))"
      unfolding calc by (simp add: predict_gdp_growth_def gp gu Let_def)
    have "calculate_economic_indicators p
          = (Inr (), p\<lparr>private_data := Some A, public_data := Some B\<rparr>) \<and>
        group_growth A (total_employment A) = Inr (Fin pg) \<and>
        group_growth B (total_employment B) = Inr (Fin ug) \<and>
        map_sum id predicted_growth_rate
            (predict_gdp_growth (snd (calculate_economic_indicators p)))
          = Inr (Fin ((pg * 0.8 + ug * 0.2) * 100))"
      using calc gp gu rate by blast
    then show ?thesis
      unfolding Let_def A_def B_def pg_def ug_def .
  qed
  have example: "map_option (\<lambda>t. group_growth t (total_employment t))
       (private_data (snd (calculate_economic_indicators example_two_sectors)))
     = Some (Inr (Fin (1 / 75)))"
    by (simp add: example_two_sectors_def calculate_economic_indicators_def add_indicators_def
        group_growth_def total_employment_def wrap64_def gdp_impact_def
        private_contribution_def private_gdp_def)
  have spec: "sector_weighted_growth_spec [(10, 0.25, 1000), (5, 0.15, 2000)] = 1 / 75"
    by (simp add: sector_weighted_growth_spec_def)
  have near: "\<bar>1 / 75 - (0.01333 :: rat)\<bar> < 0.00001 \<and> \<bar>1 / 75 * 100 - (1.333 :: rat)\<bar> < 0.001"
    by simp
  show ?thesis
    using general example spec near by blast
qed

theorem sector_growth_of_methods_witness:
  "(private_data example_two_sectors = Some (Loaded ([(''Finance'', 10, 1000), (''ICT'', 5, 2000)] :: (string \<times> rat \<times> int) list)) \<and>
    public_data example_two_sectors = Some (Loaded ([(''Government'', 5, 1000)] :: (string \<times> rat \<times> int) list)) \<and>
    list_all (\<lambda>(n, g, e). private_gdp n \<noteq> None) ([(''Finance'', 10, 1000), (''ICT'', 5, 2000)] :: (string \<times> rat \<times> int) list) \<and>
    sum_list (map (\<lambda>(n, g, e). e) ([(''Finance'', 10, 1000), (''ICT'', 5, 2000)] :: (string \<times> rat \<times> int) list)) \<noteq> 0 \<and>
    - (2 ^ 63) \<le> sum_list (map (\<lambda>(n, g, e). e) ([(''Finance'', 10, 1000), (''ICT'', 5, 2000)] :: (string \<times> rat \<times> int) list)) \<and>
    sum_list (map (\<lambda>(n, g, e). e) ([(''Finance'', 10, 1000), (''ICT'', 5, 2000)] :: (string \<times> rat \<times> int) list)) < 2 ^ 63 \<and>
    sum_list (map (\<lambda>(n, g, e). e) ([(''Government'', 5, 1000)] :: (string \<times> rat \<times> int) list)) \<noteq> 0 \<and>
    - (2 ^ 63) \<le> sum_list (map (\<lambda>(n, g, e). e) ([(''Government'', 5, 1000)] :: (string \<times> rat \<times> int) list)) \<and>
    sum_list (map (\<lambda>(n, g, e). e) ([(''Government'', 5, 1000)] :: (string \<times> rat \<times> int) list)) < 2 ^ 63) \<and>
   map_sum id predicted_growth_rate
       (predict_gdp_growth (snd (calculate_economic_indicators example_two_sectors)))
     = Inr (Fin (19 / 15))"
proof -
  let ?priv = "[(''Finance'', 10 :: rat, 1000 :: int), (''ICT'', 5, 2000)]"
  let ?pub = "[(''Government'', 5 :: rat, 1000 :: int)]"
  have f: "private_gdp ''Finance'' = Some 0.25" and i: "private_gdp ''ICT'' = Some 0.15"
    by (simp_all add: private_gdp_def)
  have nf: "private_gdp ''Finance'' \<noteq> None" and ni: "private_gdp ''ICT'' \<noteq> None"
    unfolding f i by blast+
  have H: "private_data example_two_sectors = Some (Loaded ?priv) \<and>
    public_data example_two_sectors = Some (Loaded ?pub) \<and>
    list_all (\<lambda>(n, g, e). private_gdp n \<noteq> None) ?priv \<and>
    sum_list (map (\<lambda>(n, g, e). e) ?priv) \<noteq> 0 \<and>
    - (2 ^ 63) \<le> sum_list (map (\<lambda>(n, g, e). e) ?priv) \<and>
    sum_list (map (\<lambda>(n, g, e). e) ?priv) < 2 ^ 63 \<and>
    sum_list (map (\<lambda>(n, g, e). e) ?pub) \<noteq> 0 \<and>
    - (2 ^ 63) \<le> sum_list (map (\<lambda>(n, g, e). e) ?pub) \<and>
    sum_list (map (\<lambda>(n, g, e). e) ?pub) < 2 ^ 63"
    using nf ni by (simp add: example_two_sectors_def)
  note C = mp [OF conjunct1 [OF sector_growth_of_methods [of example_two_sectors ?priv ?pub]] H]
  note R = C [unfolded Let_def, THEN conjunct2, THEN conjunct2, THEN conjunct2]
  have v: "(sector_weighted_growth_spec (map (\<lambda>(n, g, e). (g, the (private_gdp n), e)) ?priv) * 0.8
      + sector_weighted_growth_spec (map (\<lambda>(n, g, e). (g, 0.20, e)) ?pub) * 0.2) * 100 = 19 / 15"
    by (simp add: sector_weighted_growth_spec_def f i)
  have rate: "map_sum id predicted_growth_rate
       (predict_gdp_growth (snd (calculate_economic_indicators example_two_sectors)))
     = Inr (Fin (19 / 15))"
    using R unfolding v .
  show ?thesis
    using H rate by (rule conjI)
qed

text \<open>
  Two sectors with an employment of \<open>5 * 10^18\<close> each: the total is not 0, but as a
  64-bit sum it wraps to a negative number, and the growth of the table is negative
  where the quotient of the two exact sums is \<open>13 / 800\<close>.
\<close>

theorem sector_growth_of_methods_counterexample:
  "sum_list [5000000000000000000, 5000000000000000000] \<noteq> (0 :: int) \<and>
   map_option (\<lambda>t. group_growth t (total_employment t))
       (private_data (snd (calculate_economic_indicators example_large)))
     = Some (Inr (Fin (- (9918212890625 / 515548344342624)))) \<and>
   sector_weighted_growth_spec
       [(10, 0.25, 5000000000000000000), (5, 0.15, 5000000000000000000)] = 13 / 800"
  by (simp add: example_large_def calculate_economic_indicators_def add_indicators_def
      group_growth_def total_employment_def wrap64_def gdp_impact_def
      private_contribution_def private_gdp_def sector_weighted_growth_spec_def)


section \<open>Purchasing power\<close>

text \<open>
  C7, as the code behaves. For a cost index other than 0 and an income per head whose
  product with 100 fits a signed 64-bit integer, the adjusted income is
  \<open>gdp_per_capita * 100 / cost_index\<close>. The rows of the USA (85000, 100) and of South
  Africa (6800, 45) in the table of \<open>analyze_purchasing_power\<close> give exactly 85000 and
  \<open>136000 / 9\<close>, which is 15111.11 within 0.01.
\<close>

theorem ppp_adjusted_income_eq:
  "(c \<noteq> 0 \<and> - (2 ^ 63) \<le> g * 100 \<and> g * 100 < 2 ^ 63 \<longrightarrow>
      ppp_adjusted_income g c = Fin (of_int g * 100 / of_int c)) \<and>
   ppp_adjusted_income 85000 100 = Fin 85000 \<and>
   ppp_adjusted_income 6800 45 = Fin (136000 / 9) \<and>
   \<bar>136000 / 9 - (15111.11 :: rat)\<bar> < 0.01 \<and>
   (let df = analyze_purchasing_power self in
      cell (Country_ppp df) (PPP_Adjusted_Income df) ''USA'' = Some (Fin 85000) \<and>
      cell (Country_ppp df) (PPP_Adjusted_Income df) ''South_Africa'' = Some (Fin (136000 / 9)))"
  by (simp add: ppp_adjusted_income_def analyze_purchasing_power_def cell_def wrap64_id)

theorem ppp_adjusted_income_eq_witness:
  "(58 :: int) \<noteq> 0 \<and> - (2 ^ 63) \<le> (12500 :: int) * 100 \<and> (12500 :: int) * 100 < 2 ^ 63 \<and>
   ppp_adjusted_income 12500 58 = Fin (of_int 12500 * 100 / of_int 58)"
  using ppp_adjusted_income_eq [of 58 12500] by simp

text \<open>
  An income per head of \<open>10^17\<close> with cost index 100: the product with 100 wraps, and
  the adjusted income is negative, not \<open>10^17\<close>.
\<close>

theorem ppp_adjusted_income_eq_counterexample:
  "(100 :: int) \<noteq> 0 \<and>
   ppp_adjusted_income 100000000000000000 100 = Fin (- 8446744073709551616 / 100) \<and>
   (- 8446744073709551616 / 100 :: rat) \<noteq> of_int 100000000000000000 * 100 / of_int 100"
  by (simp add: ppp_adjusted_income_def wrap64_def)

section \<open>State between invocations\<close>

lemma sector_rows_add_indicators: "sector_rows (add_indicators c df) = sector_rows df"
  by (simp add: add_indicators_def comp_def case_prod_unfold)

lemma add_indicators_idem: "add_indicators c (add_indicators c df) = add_indicators c df"
  by (simp add: add_indicators_def comp_def case_prod_unfold)

lemma calculate_economic_indicators_idem:
  "calculate_economic_indicators (snd (calculate_economic_indicators p))
     = calculate_economic_indicators p"
  by (cases "private_data p"; cases "public_data p")
     (simp_all add: calculate_economic_indicators_def add_indicators_idem)

lemma predict_gdp_growth_loaded:
  "private_data p = Some (Loaded rs) \<Longrightarrow> public_data p \<noteq> None
     \<Longrightarrow> predict_gdp_growth p = Inl KeyError"
  by (auto simp: predict_gdp_growth_def group_growth_def)

lemma group_growth_add_indicators:
  "group_growth (add_indicators c df) k =
     (if sector_rows df = [] then Inl ZeroDivisionError
      else Inr (fdiv (series_sum (map (\<lambda>(i, e). fmul i (Fin (of_int e)))
                 (map (\<lambda>(n, g, e). (gdp_impact g (c n), e)) (sector_rows df))))
               (Fin (of_int k))))"
  by (simp add: group_growth_def add_indicators_def comp_def case_prod_unfold)

lemma predict_gdp_growth_after_indicators:
  assumes "private_data p = Some t" and "public_data p = Some u"
    and "sector_rows t \<noteq> []" and "sector_rows u \<noteq> []"
  shows "\<exists>r. predict_gdp_growth (snd (calculate_economic_indicators p)) = Inr r"
  using assms
  by (simp add: predict_gdp_growth_def calculate_economic_indicators_def
      group_growth_add_indicators Let_def)

lemma predict_gdp_growth_no_rows:
  assumes "private_data p = Some t" and "public_data p = Some u" and "sector_rows t = []"
  shows "predict_gdp_growth (snd (calculate_economic_indicators p)) = Inl ZeroDivisionError"
  using assms
  by (simp add: predict_gdp_growth_def calculate_economic_indicators_def
      group_growth_add_indicators Let_def)

text \<open>
  C8, as the code behaves. \<open>analyze_purchasing_power\<close> and
  \<open>create_international_comparison\<close> return one fixed table whatever the state of the
  object, and \<open>create_comprehensive_dashboard\<close> one fixed table beside the object's four
  country names. The sector computation goes through the object:
  \<open>calculate_economic_indicators\<close> stores its columns on it, and a second invocation
  ends as the first did and leaves the same object; \<open>predict_gdp_growth\<close> reads those
  columns, so on loaded tables it ends with a \<open>KeyError\<close> before
  \<open>calculate_economic_indicators\<close> has run, and after it returns a prediction when both
  tables have rows and ends with a \<open>ZeroDivisionError\<close> when the private table has none.
\<close>

theorem object_state_between_invocations:
  "analyze_purchasing_power a =
     \<lparr>Country_ppp = [''USA'', ''China'', ''England'', ''South_Africa''],
      Cost_Index = [100, 58, 127, 45],
      Exchange_Rate_to_ZAR = [18.5, 2.55, 23.4, 1.0],
      GDP_per_Capita_USD = [85000, 12500, 52000, 6800],
      PPP_Adjusted_Income =
        [Fin 85000, Fin (625000 / 29), Fin (5200000 / 127), Fin (136000 / 9)],
      Currency_Fair_Value =
        [Fin (37 / 2), Fin (1479 / 1000), Fin (14859 / 500), Fin (9 / 20)]\<rparr> \<and>
   create_international_comparison p =
     \<lparr>country = [''USA'', ''China'', ''England'', ''South_Africa''],
      gdp = [28.0, 18.0, 3.5, 0.4],
      employment_millions = [160, 780, 33, 16.5],
      currency_strength = [1.0, 0.14, 1.27, 0.053],
      Economic_Size_Index = [Fin 100, Fin (450 / 7), Fin (25 / 2), Fin (10 / 7)],
      Employment_Strength = [Fin (800 / 39), Fin 100, Fin (55 / 13), Fin (55 / 26)],
      Currency_Power = [Fin (10000 / 127), Fin (1400 / 127), Fin 100, Fin (530 / 127)],
      Composite_Power =
        [Fin (115200 / 1651), Fin (52470 / 889), Fin (943 / 26), Fin (113629 / 46228)]\<rparr> \<and>
   (length (countries d) = 4 \<longrightarrow>
      create_comprehensive_dashboard d =
        Inr \<lparr>Country = countries d,
             GDP_Trillion_USD = [28.0, 18.0, 3.5, 0.4],
             GDP_Growth_Rate = [2.1, 5.2, 1.8, 3.8],
             Employment_Millions = [160, 780, 33, 16.5],
             Currency_Strength = [100, 14, 127, 5.3],
             Innovation_Index = [87.9, 81.9, 82.2, 42.4],
             Economic_Freedom = [76.6, 58.4, 78.9, 59.8],
             Economic_Size_Relative = [Fin 100, Fin (450 / 7), Fin (25 / 2), Fin (10 / 7)],
             Employment_Market_Relative =
               [Fin (800 / 39), Fin 100, Fin (55 / 13), Fin (55 / 26)],
             Innovation_Relative =
               [Fin 100, Fin (27300 / 293), Fin (27400 / 293), Fin (42400 / 879)],
             Economic_Power_Index =
               [Fin (7069 / 78), Fin (278159 / 2930), Fin (8918509 / 152360),
                Fin (70244449 / 2285400)]\<rparr>) \<and>
   calculate_economic_indicators (snd (calculate_economic_indicators p))
     = calculate_economic_indicators p \<and>
   (private_data p = Some (Loaded rs) \<and> public_data p \<noteq> None \<longrightarrow>
      predict_gdp_growth p = Inl KeyError) \<and>
   (private_data p = Some t \<and> public_data p = Some u \<and>
    sector_rows t \<noteq> [] \<and> sector_rows u \<noteq> [] \<longrightarrow>
      (\<exists>r. predict_gdp_growth (snd (calculate_economic_indicators p)) = Inr r)) \<and>
   (private_data p = Some t \<and> public_data p = Some u \<and> sector_rows t = [] \<longrightarrow>
      predict_gdp_growth (snd (calculate_economic_indicators p)) = Inl ZeroDivisionError)"
proof -
  have ppp: "analyze_purchasing_power a =
     \<lparr>Country_ppp = [''USA'', ''China'', ''England'', ''South_Africa''],
      Cost_Index = [100, 58, 127, 45],
      Exchange_Rate_to_ZAR = [18.5, 2.55, 23.4, 1.0],
      GDP_per_Capita_USD = [85000, 12500, 52000, 6800],
      PPP_Adjusted_Income =
        [Fin 85000, Fin (625000 / 29), Fin (5200000 / 127), Fin (136000 / 9)],
      Currency_Fair_Value =
        [Fin (37 / 2), Fin (1479 / 1000), Fin (14859 / 500), Fin (9 / 20)]\<rparr>"
    by (simp add: analyze_purchasing_power_def ppp_adjusted_income_def currency_fair_value_def
        wrap64_def)
  have cmp: "create_international_comparison p =
     \<lparr>country = [''USA'', ''China'', ''England'', ''South_Africa''],
      gdp = [28.0, 18.0, 3.5, 0.4],
      employment_millions = [160, 780, 33, 16.5],
      currency_strength = [1.0, 0.14, 1.27, 0.053],
      Economic_Size_Index = [Fin 100, Fin (450 / 7), Fin (25 / 2), Fin (10 / 7)],
      Employment_Strength = [Fin (800 / 39), Fin 100, Fin (55 / 13), Fin (55 / 26)],
      Currency_Power = [Fin (10000 / 127), Fin (1400 / 127), Fin 100, Fin (530 / 127)],
      Composite_Power =
        [Fin (115200 / 1651), Fin (52470 / 889), Fin (943 / 26), Fin (113629 / 46228)]\<rparr>"
    by (simp add: create_international_comparison_def countries_2024_def normalize_relative_def
        col_add_def col_scale_def)
  have dash: "create_comprehensive_dashboard d =
        Inr \<lparr>Country = countries d,
             GDP_Trillion_USD = [28.0, 18.0, 3.5, 0.4],
             GDP_Growth_Rate = [2.1, 5.2, 1.8, 3.8],
             Employment_Millions = [160, 780, 33, 16.5],
             Currency_Strength = [100, 14, 127, 5.3],
             Innovation_Index = [87.9, 81.9, 82.2, 42.4],
             Economic_Freedom = [76.6, 58.4, 78.9, 59.8],
             Economic_Size_Relative = [Fin 100, Fin (450 / 7), Fin (25 / 2), Fin (10 / 7)],
             Employment_Market_Relative =
               [Fin (800 / 39), Fin 100, Fin (55 / 13), Fin (55 / 26)],
             Innovation_Relative =
               [Fin 100, Fin (27300 / 293), Fin (27400 / 293), Fin (42400 / 879)],
             Economic_Power_Index =
               [Fin (7069 / 78), Fin (278159 / 2930), Fin (8918509 / 152360),
                Fin (70244449 / 2285400)]\<rparr>"
    if "length (countries d) = 4"
    using that
    by (simp add: create_comprehensive_dashboard_def normalize_relative_def
        col_add_def col_scale_def)
  show ?thesis
    using ppp cmp dash calculate_economic_indicators_idem predict_gdp_growth_loaded
      predict_gdp_growth_after_indicators predict_gdp_growth_no_rows
    by blast
qed

theorem object_state_between_invocations_witness:
  "length (countries \<lparr>countries = [''A'', ''B'', ''C'', ''D'']\<rparr>) = 4 \<and>
   map_sum id Country (create_comprehensive_dashboard \<lparr>countries = [''A'', ''B'', ''C'', ''D'']\<rparr>)
     = Inr [''A'', ''B'', ''C'', ''D''] \<and>
   private_data example_loaded = Some (Loaded [(''Finance'', 10, 1000)]) \<and>
   public_data example_loaded = Some (Loaded [(''Government'', 5, 1000)]) \<and>
   public_data example_loaded \<noteq> None \<and>
   sector_rows (Loaded [(''Finance'', 10, 1000)]) \<noteq> [] \<and>
   sector_rows (Loaded [(''Government'', 5, 1000)]) \<noteq> [] \<and>
   predict_gdp_growth example_loaded = Inl KeyError \<and>
   predict_gdp_growth (snd (calculate_economic_indicators example_loaded)) \<noteq> Inl KeyError \<and>
   private_data example_header_only = Some (Loaded []) \<and>
   public_data example_header_only = Some (Loaded [(''Government'', 5, 1000)]) \<and>
   sector_rows (Loaded []) = [] \<and>
   predict_gdp_growth (snd (calculate_economic_indicators example_header_only))
     = Inl ZeroDivisionError"
proof -
  have l: "private_data example_loaded = Some (Loaded [(''Finance'', 10, 1000)])"
      "public_data example_loaded = Some (Loaded [(''Government'', 5, 1000)])"
      "public_data example_loaded \<noteq> None"
      "sector_rows (Loaded [(''Finance'', 10, 1000)]) \<noteq> []"
      "sector_rows (Loaded [(''Government'', 5, 1000)]) \<noteq> []"
    by (simp_all add: example_loaded_def)
  have h: "private_data example_header_only = Some (Loaded [])"
      "public_data example_header_only = Some (Loaded [(''Government'', 5, 1000)])"
      "sector_rows (Loaded []) = []"
    by (simp_all add: example_header_only_def)
  have d: "length (countries \<lparr>countries = [''A'', ''B'', ''C'', ''D'']\<rparr>) = 4"
    by simp
  note T1 = object_state_between_invocations [where p = example_loaded
      and d = "\<lparr>countries = [''A'', ''B'', ''C'', ''D'']\<rparr>"
      and rs = "[(''Finance'', 10, 1000)]" and t = "Loaded [(''Finance'', 10, 1000)]"
      and u = "Loaded [(''Government'', 5, 1000)]"]
  note T2 = object_state_between_invocations [where p = example_header_only
      and t = "Loaded []" and u = "Loaded [(''Government'', 5, 1000)]"]
  have c: "map_sum id Country
      (create_comprehensive_dashboard \<lparr>countries = [''A'', ''B'', ''C'', ''D'']\<rparr>)
     = Inr [''A'', ''B'', ''C'', ''D'']"
    using T1 d by simp
  have k: "predict_gdp_growth example_loaded = Inl KeyError"
    using T1 l by blast
  have "\<exists>r. predict_gdp_growth (snd (calculate_economic_indicators example_loaded)) = Inr r"
    using T1 l by blast
  then have n: "predict_gdp_growth (snd (calculate_economic_indicators example_loaded))
      \<noteq> Inl KeyError"
    by auto
  have z: "predict_gdp_growth (snd (calculate_economic_indicators example_header_only))
     = Inl ZeroDivisionError"
    using T2 h by blast
  show ?thesis
    using d c l k n h z by blast
qed

text \<open>
  Two invocations of \<open>predict_gdp_growth\<close> with the same (empty) list of arguments on
  the same loaded object: the one before \<open>calculate_economic_indicators\<close> ends with a
  \<open>KeyError\<close>, the one after it returns a prediction. The result depends on an earlier
  invocation.
\<close>

theorem object_state_between_invocations_counterexample:
  "predict_gdp_growth example_loaded = Inl KeyError \<and>
   predict_gdp_growth (snd (calculate_economic_indicators example_loaded)) =
     Inr \<lparr>base_gdp_billion = Fin 160, predicted_growth_rate = Fin 2.2, gdp_2024 = Fin 163.52\<rparr>"
  by (simp add: example_loaded_def predict_gdp_growth_def calculate_economic_indicators_def
      add_indicators_def total_employment_def group_growth_def gdp_impact_def wrap64_def
      private_contribution_def private_gdp_def)

end
